theory Spec2Isabelle
  imports Main
begin

section \<open>Data model\<close>

text \<open>
  The objects handled by the hub subscription controller
  (\<^verbatim>\<open>pkg/controller/mcmhub/mcmhub_controller.go\<close>) and by the GitHub webhook listener
  (\<^verbatim>\<open>pkg/webhook/listener/github_events.go\<close>). Go strings and byte slices are
  \<^typ>\<open>string\<close>; a Go pointer, map or slice that may be \<^verbatim>\<open>nil\<close> is an
  \<^typ>\<open>'a option\<close> where the code tests it against \<^verbatim>\<open>nil\<close>; an \<^verbatim>\<open>error\<close> is the
  text returned by its \<^verbatim>\<open>Error()\<close> method.
\<close>

type_synonym error = string

text \<open>\<^verbatim>\<open>types.NamespacedName\<close>; its \<^verbatim>\<open>String()\<close> joins both parts with a slash.\<close>

record NamespacedName =
  Namespace :: string
  Name :: string

definition NamespacedName_String :: "NamespacedName \<Rightarrow> string" where
  "NamespacedName_String n = Namespace n @ ''/'' @ Name n"

text \<open>The part of \<^verbatim>\<open>metav1.ObjectMeta\<close> that the code reads.\<close>

record ObjectMeta =
  GetNamespace :: string
  GetName :: string
  GetAnnotations :: "(string \<rightharpoonup> string) option"

text \<open>Indexing a Go map of strings: a \<^verbatim>\<open>nil\<close> map and a missing key both give \<^verbatim>\<open>""\<close>.\<close>

definition index_map :: "(string \<rightharpoonup> string) option \<Rightarrow> string \<Rightarrow> string" where
  "index_map m k = (case m of None \<Rightarrow> '''' | Some f \<Rightarrow> (case f k of None \<Rightarrow> '''' | Some v \<Rightarrow> v))"

text \<open>
  \<^verbatim>\<open>Placement\<close>: only whether each of the three selecting fields is \<^verbatim>\<open>nil\<close> matters
  to the controller. An empty, non-nil cluster list is \<^term>\<open>Some []\<close>.
\<close>

record Placement =
  PlacementRef :: "string option"
  Clusters :: "string list option"
  ClusterSelector :: "(string \<times> string) list option"
  Local :: "bool option"

record SubscriptionSpec =
  Channel :: string
  Placement :: "Placement option"

text \<open>
  \<^verbatim>\<open>SubscriptionStatus\<close>. The phase is a Go string type. The per-cluster status type is
  declared outside the files at hand and is the type parameter \<^typ>\<open>'v\<close>; the map itself
  may be \<^verbatim>\<open>nil\<close>. \<^verbatim>\<open>metav1.Time\<close> is an integer instant.
\<close>

type_synonym time = int

record 'v SubscriptionStatus =
  Phase :: string
  Message :: string
  Reason :: string
  LastUpdateTime :: time
  Statuses :: "(string \<rightharpoonup> 'v) option"

record 'v Subscription =
  Meta :: ObjectMeta
  Spec :: SubscriptionSpec
  Status :: "'v SubscriptionStatus"

text \<open>
  Modelled from the spec: the phase constants of the API package
  (\<^verbatim>\<open>appv1alpha1.SubscriptionPropagated\<close>, \<^verbatim>\<open>SubscriptionFailed\<close>,
  \<^verbatim>\<open>SubscriptionSubscribed\<close>), whose declarations are not among the files at hand. The
  spec names the phases Propagated, Failed, Subscribed and Empty.
\<close>

definition SubscriptionPropagated :: string where
  "SubscriptionPropagated = ''Propagated''"

definition SubscriptionFailed :: string where
  "SubscriptionFailed = ''Failed''"

definition SubscriptionSubscribed :: string where
  "SubscriptionSubscribed = ''Subscribed''"

definition key_of :: "'v Subscription \<Rightarrow> NamespacedName" where
  "key_of s = \<lparr>Namespace = GetNamespace (Meta s), Name = GetName (Meta s)\<rparr>"

section \<open>The object store client\<close>

text \<open>
  The controller's \<^verbatim>\<open>client.Client\<close>. The store holds the subscriptions as a list of
  objects; a read looks an object up by its namespace and name. The failures of the store
  are injected: \<^term>\<open>get_failure\<close> is a read error other than not-found,
  \<^term>\<open>list_failure\<close> a failing list call together with the items it left in the result,
  \<^term>\<open>update_failure\<close> the rejection of a status write. \<^term>\<open>status_updates\<close> logs
  every \<^verbatim>\<open>Status().Update\<close> call issued, accepted or not.
\<close>

record 'v Client =
  objects :: "'v Subscription list"
  get_failure :: "error option"
  list_failure :: "(error \<times> 'v Subscription list) option"
  update_failure :: "error option"
  status_updates :: "'v Subscription list"

datatype 'v get_result = NotFound | GetError error | Found "'v Subscription"

definition client_Get :: "'v Client \<Rightarrow> NamespacedName \<Rightarrow> 'v get_result" where
  "client_Get c key =
     (case get_failure c of
        Some e \<Rightarrow> GetError e
      | None \<Rightarrow> (case find (\<lambda>s. key_of s = key) (objects c) of
                   None \<Rightarrow> NotFound
                 | Some s \<Rightarrow> Found s))"

text \<open>
  \<^verbatim>\<open>List\<close> with \<^verbatim>\<open>ListOptions{Namespace: ns}\<close>: the objects of that namespace, of every
  namespace when \<^verbatim>\<open>ns\<close> is empty.
\<close>

definition client_List :: "'v Client \<Rightarrow> string \<Rightarrow> error option \<times> 'v Subscription list" where
  "client_List c ns =
     (case list_failure c of
        Some (e, partial) \<Rightarrow> (Some e, partial)
      | None \<Rightarrow> (None, if ns = '''' then objects c
                       else filter (\<lambda>s. GetNamespace (Meta s) = ns) (objects c)))"

text \<open>
  \<^verbatim>\<open>Status().Update\<close>: the status subresource of the stored object with the instance's
  namespace and name is replaced by the instance's status, unless the store rejects the
  write or holds no such object.
\<close>

definition client_StatusUpdate :: "'v Client \<Rightarrow> 'v Subscription \<Rightarrow> error option \<times> 'v Client" where
  "client_StatusUpdate c instance =
     (let c' = c\<lparr>status_updates := status_updates c @ [instance]\<rparr> in
      case update_failure c of
        Some e \<Rightarrow> (Some e, c')
      | None \<Rightarrow>
          (if find (\<lambda>s. key_of s = key_of instance) (objects c) = None
           then (Some ''not found'', c')
           else (None, c'\<lparr>objects :=
                   map (\<lambda>s. if key_of s = key_of instance
                             then s\<lparr>Status := Status instance\<rparr> else s) (objects c)\<rparr>)))"

section \<open>Reconcile\<close>

text \<open>\<^verbatim>\<open>reconcile.Result\<close>; \<^verbatim>\<open>RequeueAfter\<close> is a \<^verbatim>\<open>time.Duration\<close> in nanoseconds.\<close>

record Result =
  Requeue :: bool
  RequeueAfter :: int

definition Result_zero :: Result where
  "Result_zero = \<lparr>Requeue = False, RequeueAfter = 0\<rparr>"

definition time_Second :: int where
  "time_Second = 1000000000"

text \<open>
  The hub propagation routine \<^verbatim>\<open>doMCMHubReconcile\<close> and the clear routine
  \<^verbatim>\<open>clearSubscriptionDpls\<close> are methods defined outside the files at hand. Each receives
  a pointer to the fetched instance, may change it in memory, and returns an error or
  \<^verbatim>\<open>nil\<close>; the artifacts they create are not subscriptions of the store.
\<close>

type_synonym 'v routine = "'v Subscription \<Rightarrow> error option \<times> 'v Subscription"

text \<open>The test of line 204: the placement selects clusters.\<close>

definition is_hub :: "'v Subscription \<Rightarrow> bool" where
  "is_hub instance =
     (case Placement (Spec instance) of
        None \<Rightarrow> False
      | Some pl \<Rightarrow> PlacementRef pl \<noteq> None \<or> Clusters pl \<noteq> None \<or> ClusterSelector pl \<noteq> None)"

definition set_Phase :: "string \<Rightarrow> 'v Subscription \<Rightarrow> 'v Subscription" where
  "set_Phase p instance = instance\<lparr>Status := (Status instance)\<lparr>Phase := p\<rparr>\<rparr>"

definition set_Failed :: "error \<Rightarrow> 'v Subscription \<Rightarrow> 'v Subscription" where
  "set_Failed e instance =
     instance\<lparr>Status := (Status instance)\<lparr>Phase := SubscriptionFailed, Reason := e\<rparr>\<rparr>"

text \<open>Lines 205 to 211.\<close>

definition hub_branch :: "'v routine \<Rightarrow> 'v Subscription \<Rightarrow> 'v Subscription" where
  "hub_branch doMCMHubReconcile instance =
     (let (err, instance1) = doMCMHubReconcile instance;
          instance2 = set_Phase SubscriptionPropagated instance1
      in case err of None \<Rightarrow> instance2 | Some e \<Rightarrow> set_Failed e instance2)"

text \<open>
  The reserved local key \<^verbatim>\<open>types.NamespacedName{}.String()\<close>, and the loop of lines 228
  to 232, which deletes every other key of the map.
\<close>

definition localkey :: string where
  "localkey = NamespacedName_String \<lparr>Namespace = '''', Name = ''''\<rparr>"

definition delete_other_keys :: "(string \<rightharpoonup> 'v) \<Rightarrow> (string \<rightharpoonup> 'v)" where
  "delete_other_keys m = (\<lambda>k. if k \<noteq> localkey then None else m k)"

text \<open>Lines 214 to 233.\<close>

definition local_branch :: "'v routine \<Rightarrow> 'v Subscription \<Rightarrow> 'v Subscription" where
  "local_branch clearSubscriptionDpls instance =
     (let (err, instance1) = clearSubscriptionDpls instance;
          instance2 = (case err of None \<Rightarrow> instance1 | Some e \<Rightarrow> set_Failed e instance1);
          instance3 =
            (if Phase (Status instance2) \<noteq> SubscriptionFailed
                \<and> Phase (Status instance2) \<noteq> SubscriptionSubscribed
             then instance2\<lparr>Status := (Status instance2)\<lparr>Phase := '''', Message := '''', Reason := ''''\<rparr>\<rparr>
             else instance2)
      in case Statuses (Status instance3) of
           None \<Rightarrow> instance3
         | Some m \<Rightarrow> instance3\<lparr>Status := (Status instance3)\<lparr>Statuses := Some (delete_other_keys m)\<rparr>\<rparr>)"

text \<open>Lines 203 to 234: the instance as it stands when it is compared with the snapshot.\<close>

definition recompute :: "'v routine \<Rightarrow> 'v routine \<Rightarrow> 'v Subscription \<Rightarrow> 'v Subscription" where
  "recompute doMCMHubReconcile clearSubscriptionDpls instance =
     (if is_hub instance then hub_branch doMCMHubReconcile instance
      else local_branch clearSubscriptionDpls instance)"

definition stamp :: "time \<Rightarrow> 'v Subscription \<Rightarrow> 'v Subscription" where
  "stamp now instance = instance\<lparr>Status := (Status instance)\<lparr>LastUpdateTime := now\<rparr>\<rparr>"

text \<open>
  \<^verbatim>\<open>Reconcile\<close> returns the result, the error and the client after the call.
  \<^verbatim>\<open>reflect.DeepEqual\<close> on the two statuses is equality of the records; \<^term>\<open>now\<close> is
  the value \<^verbatim>\<open>metav1.Now()\<close> returns.
\<close>

definition Reconcile ::
  "'v routine \<Rightarrow> 'v routine \<Rightarrow> time \<Rightarrow> 'v Client \<Rightarrow> NamespacedName
     \<Rightarrow> (Result \<times> error option) \<times> 'v Client" where
  "Reconcile doMCMHubReconcile clearSubscriptionDpls now r request =
     (case client_Get r request of
        NotFound \<Rightarrow> ((Result_zero, None), r)
      | GetError e \<Rightarrow> ((Result_zero, Some e), r)
      | Found instance0 \<Rightarrow>
          (let orgst = Status instance0;
               instance = recompute doMCMHubReconcile clearSubscriptionDpls instance0;
               result = Result_zero
           in if orgst \<noteq> Status instance
              then (let (err, r') = client_StatusUpdate r (stamp now instance)
                    in case err of
                         Some e \<Rightarrow> ((result\<lparr>RequeueAfter := 1 * time_Second\<rparr>, None), r')
                       | None \<Rightarrow> ((result, None), r'))
              else ((result, None), r)))"

text \<open>The status of the object stored under a key, as a later read would see it.\<close>

definition stored_Status :: "'v Client \<Rightarrow> NamespacedName \<Rightarrow> 'v SubscriptionStatus option" where
  "stored_Status c key = (case client_Get c key of Found s \<Rightarrow> Some (Status s) | _ \<Rightarrow> None)"

text \<open>The phase that lines 207 to 210 assign for an outcome of the hub routine.\<close>

definition hub_outcome_Phase :: "error option \<Rightarrow> string" where
  "hub_outcome_Phase err = (case err of None \<Rightarrow> SubscriptionPropagated | Some e \<Rightarrow> SubscriptionFailed)"

text \<open>One entry of the per-cluster status map; a \<^verbatim>\<open>nil\<close> map has none.\<close>

definition status_entry :: "'v SubscriptionStatus \<Rightarrow> string \<Rightarrow> 'v option" where
  "status_entry st k = (case Statuses st of None \<Rightarrow> None | Some m \<Rightarrow> m k)"

text \<open>The phase as it stands after lines 214 to 218, when the clear routine has returned.\<close>

definition cleared_Phase :: "error option \<Rightarrow> 'v Subscription \<Rightarrow> string" where
  "cleared_Phase err instance1 =
     (case err of None \<Rightarrow> Phase (Status instance1) | Some e \<Rightarrow> SubscriptionFailed)"

section \<open>Example objects\<close>

text \<open>
  The two subscriptions of the rolling-update example of the repository: \<^verbatim>\<open>sub-orig\<close>
  places on a cluster list and carries the rolling-update-target annotation,
  \<^verbatim>\<open>sub-target\<close> has no placement. The status values are chosen to exercise the code.
\<close>

definition AnnotationRollingUpdateTarget :: string where
  "AnnotationRollingUpdateTarget = ''app.ibm.com/rollingupdate-target''"

definition example_sub_orig :: "nat Subscription" where
  "example_sub_orig =
     \<lparr>Meta = \<lparr>GetNamespace = ''default'', GetName = ''sub-orig'',
              GetAnnotations = Some [AnnotationRollingUpdateTarget \<mapsto> ''sub-target'']\<rparr>,
      Spec = \<lparr>Channel = ''dev1/dev1'',
              Placement = Some \<lparr>PlacementRef = None, Clusters = Some [''local-cluster''],
                                ClusterSelector = None, Local = None\<rparr>\<rparr>,
      Status = \<lparr>Phase = '''', Message = '''', Reason = ''stale'', LastUpdateTime = 0,
                Statuses = None\<rparr>\<rparr>"

definition example_sub_target :: "nat Subscription" where
  "example_sub_target =
     \<lparr>Meta = \<lparr>GetNamespace = ''default'', GetName = ''sub-target'', GetAnnotations = None\<rparr>,
      Spec = \<lparr>Channel = ''dev2/dev2'', Placement = None\<rparr>,
      Status = \<lparr>Phase = SubscriptionPropagated, Message = ''m'', Reason = ''r'', LastUpdateTime = 0,
                Statuses = Some [''/'' \<mapsto> 1, ''cluster1/cluster1'' \<mapsto> 2, ''cluster2/cluster2'' \<mapsto> 3]\<rparr>\<rparr>"

definition example_client :: "nat Client" where
  "example_client =
     \<lparr>objects = [example_sub_orig, example_sub_target], get_failure = None,
      list_failure = None, update_failure = None, status_updates = []\<rparr>"

definition key_sub_orig :: NamespacedName where
  "key_sub_orig = \<lparr>Namespace = ''default'', Name = ''sub-orig''\<rparr>"

definition key_sub_target :: NamespacedName where
  "key_sub_target = \<lparr>Namespace = ''default'', Name = ''sub-target''\<rparr>"

text \<open>A routine that succeeds and one that fails, both leaving the instance as it is.\<close>

definition routine_ok :: "'v routine" where
  "routine_ok instance = (None, instance)"

definition routine_fails :: "error \<Rightarrow> 'v routine" where
  "routine_fails e instance = (Some e, instance)"

text \<open>The store once \<^verbatim>\<open>sub-orig\<close> has been reported as propagated.\<close>

definition example_client_settled :: "nat Client" where
  "example_client_settled =
     example_client\<lparr>objects := [set_Phase SubscriptionPropagated example_sub_orig, example_sub_target]\<rparr>"

section \<open>Properties of Reconcile\<close>

subsection \<open>Reading and writing the store\<close>

lemma client_Get_Found:
  "client_Get r key = Found s \<Longrightarrow>
     get_failure r = None \<and> find (\<lambda>s. key_of s = key) (objects r) = Some s \<and> key_of s = key"
  by (auto simp: client_Get_def find_Some_iff split: option.splits)

lemma Reconcile_Found:
  "client_Get r request = Found instance0 \<Longrightarrow>
   Reconcile h c now r request =
     (if Status instance0 \<noteq> Status (recompute h c instance0)
      then ((case fst (client_StatusUpdate r (stamp now (recompute h c instance0))) of
               Some e \<Rightarrow> Result_zero\<lparr>RequeueAfter := time_Second\<rparr>
             | None \<Rightarrow> Result_zero, None),
            snd (client_StatusUpdate r (stamp now (recompute h c instance0))))
      else ((Result_zero, None), r))"
  by (simp add: Reconcile_def Let_def split: prod.splits option.splits)

lemma key_of_Status [simp]: "key_of (s\<lparr>Status := st\<rparr>) = key_of s"
  by (simp add: key_of_def)

lemma key_of_stamp [simp]: "key_of (stamp now s) = key_of s"
  by (simp add: stamp_def)

lemma is_hub_Status [simp]: "is_hub (s\<lparr>Status := st\<rparr>) = is_hub s"
  by (simp add: is_hub_def)

lemma find_map_Status:
  "find (\<lambda>s. key_of s = k) (map (\<lambda>s. if key_of s = k then s\<lparr>Status := st\<rparr> else s) xs) =
     map_option (\<lambda>s. s\<lparr>Status := st\<rparr>) (find (\<lambda>s. key_of s = k) xs)"
  by (induction xs) auto

lemma client_StatusUpdate_accepted:
  assumes "client_Get r request = Found instance0"
    and "update_failure r = None"
    and "key_of instance = request"
  shows "fst (client_StatusUpdate r instance) = None"
    and "client_Get (snd (client_StatusUpdate r instance)) request =
           Found (instance0\<lparr>Status := Status instance\<rparr>)"
    and "status_updates (snd (client_StatusUpdate r instance)) = status_updates r @ [instance]"
  using client_Get_Found[OF assms(1)] assms(2,3)
  by (simp_all add: client_StatusUpdate_def client_Get_def Let_def find_map_Status)

lemma stored_after_Reconcile:
  assumes "client_Get r request = Found instance0"
    and "update_failure r = None"
    and "key_of (recompute h c instance0) = request"
  shows "client_Get (snd (Reconcile h c now r request)) request =
           Found (instance0\<lparr>Status :=
             (if Status instance0 = Status (recompute h c instance0) then Status instance0
              else Status (stamp now (recompute h c instance0)))\<rparr>)"
  using assms client_StatusUpdate_accepted(2)[OF assms(1,2), of "stamp now (recompute h c instance0)"]
  by (simp add: Reconcile_Found)

lemma hub_branch_Status:
  "h instance0 = (err, instance1) \<Longrightarrow>
   Status (hub_branch h instance0) =
     (Status instance1)\<lparr>Phase := hub_outcome_Phase err,
        Reason := (case err of None \<Rightarrow> Reason (Status instance1) | Some e \<Rightarrow> e)\<rparr>"
  by (cases err) (simp_all add: hub_branch_def hub_outcome_Phase_def set_Phase_def set_Failed_def)

lemma key_of_hub_branch: "key_of (hub_branch h i) = key_of (snd (h i))"
  by (cases "h i"; cases "fst (h i)")
     (simp_all add: hub_branch_def set_Phase_def set_Failed_def key_of_def)

lemma example_Get_orig: "client_Get example_client key_sub_orig = Found example_sub_orig"
  by (simp add: client_Get_def example_client_def key_sub_orig_def key_of_def example_sub_orig_def)

lemma example_Get_target: "client_Get example_client key_sub_target = Found example_sub_target"
  by (simp add: client_Get_def example_client_def key_sub_target_def key_of_def example_sub_orig_def
      example_sub_target_def)

lemma example_is_hub: "is_hub example_sub_orig" "\<not> is_hub example_sub_target"
  by (simp_all add: is_hub_def example_sub_orig_def example_sub_target_def)

lemma localkey_eq: "localkey = ''/''"
  by (simp add: localkey_def NamespacedName_String_def)

lemma local_branch_Status:
  assumes "clear instance0 = (err, instance1)"
  shows "Status (local_branch clear instance0) =
     (if cleared_Phase err instance1 \<noteq> SubscriptionFailed
         \<and> cleared_Phase err instance1 \<noteq> SubscriptionSubscribed
      then (Status instance1)\<lparr>Phase := '''', Message := '''', Reason := '''',
             Statuses := map_option delete_other_keys (Statuses (Status instance1))\<rparr>
      else (Status instance1)\<lparr>Phase := cleared_Phase err instance1,
             Reason := (case err of None \<Rightarrow> Reason (Status instance1) | Some e \<Rightarrow> e),
             Statuses := map_option delete_other_keys (Statuses (Status instance1))\<rparr>)"
  using assms
  by (cases err; cases "Statuses (Status instance1)")
     (auto simp: local_branch_def cleared_Phase_def set_Failed_def Let_def)

lemma key_of_local_branch: "key_of (local_branch c i) = key_of (snd (c i))"
  by (cases "c i"; cases "fst (c i)"; cases "Statuses (Status (snd (c i)))")
     (auto simp: local_branch_def set_Failed_def key_of_def Let_def split: option.splits)

lemma example_target_recompute:
  "Status (recompute h routine_ok example_sub_target) =
     \<lparr>Phase = '''', Message = '''', Reason = '''', LastUpdateTime = 0,
      Statuses = Some (delete_other_keys
         [''/'' \<mapsto> 1, ''cluster1/cluster1'' \<mapsto> 2, ''cluster2/cluster2'' \<mapsto> 3])\<rparr>"
  by (simp add: recompute_def example_is_hub local_branch_def routine_ok_def Let_def)
     (simp add: example_sub_target_def SubscriptionPropagated_def SubscriptionFailed_def
       SubscriptionSubscribed_def)

lemma example_Get_settled:
  "client_Get example_client_settled key_sub_orig = Found (set_Phase SubscriptionPropagated example_sub_orig)"
  by (simp add: client_Get_def example_client_settled_def example_client_def key_sub_orig_def
      key_of_def example_sub_orig_def set_Phase_def)

subsection \<open>Hub mode\<close>

text \<open>
  C1. For a subscription whose placement has a cluster list, a cluster selector or a
  placement reference, the status that Reconcile computes has phase Propagated when the hub
  propagation routine returned no error, and phase Failed with the reason equal to the
  error text when it returned one, whatever the reason was before. When the store accepts
  the write and the routine kept the name of the instance, the stored object shows that
  phase and reason after the call.
\<close>

theorem Reconcile_hub_phase:
  assumes "client_Get r request = Found instance0"
    and "is_hub instance0"
    and "doMCMHubReconcile instance0 = (err, instance1)"
  shows "Phase (Status (recompute doMCMHubReconcile clear instance0)) = hub_outcome_Phase err
       \<and> (\<forall>e. err = Some e \<longrightarrow> Reason (Status (recompute doMCMHubReconcile clear instance0)) = e)
       \<and> (update_failure r = None \<and> key_of instance1 = request \<longrightarrow>
            map_option Phase (stored_Status (snd (Reconcile doMCMHubReconcile clear now r request)) request)
              = Some (hub_outcome_Phase err)
          \<and> (\<forall>e. err = Some e \<longrightarrow>
               map_option Reason (stored_Status (snd (Reconcile doMCMHubReconcile clear now r request)) request)
                 = Some e))"
proof -
  let ?i = "recompute doMCMHubReconcile clear instance0"
  have st: "Status ?i = (Status instance1)\<lparr>Phase := hub_outcome_Phase err,
        Reason := (case err of None \<Rightarrow> Reason (Status instance1) | Some e \<Rightarrow> e)\<rparr>"
    using assms(2,3) by (simp add: recompute_def hub_branch_Status)
  have k: "key_of ?i = key_of instance1"
    using assms(2,3) by (simp add: recompute_def key_of_hub_branch)
  have p: "Phase (Status ?i) = hub_outcome_Phase err" by (simp add: st)
  have q: "\<forall>e. err = Some e \<longrightarrow> Reason (Status ?i) = e" by (simp add: st)
  have s: "update_failure r = None \<and> key_of instance1 = request \<longrightarrow>
            map_option Phase (stored_Status (snd (Reconcile doMCMHubReconcile clear now r request)) request)
              = Some (hub_outcome_Phase err)
          \<and> (\<forall>e. err = Some e \<longrightarrow>
               map_option Reason (stored_Status (snd (Reconcile doMCMHubReconcile clear now r request)) request)
                 = Some e)"
  proof (intro impI, elim conjE)
    assume u: "update_failure r = None" and kk: "key_of instance1 = request"
    have "client_Get (snd (Reconcile doMCMHubReconcile clear now r request)) request =
           Found (instance0\<lparr>Status :=
             (if Status instance0 = Status ?i then Status instance0
              else Status (stamp now ?i))\<rparr>)"
      using stored_after_Reconcile[OF assms(1) u] k kk by simp
    then show "map_option Phase (stored_Status (snd (Reconcile doMCMHubReconcile clear now r request)) request)
              = Some (hub_outcome_Phase err)
          \<and> (\<forall>e. err = Some e \<longrightarrow>
               map_option Reason (stored_Status (snd (Reconcile doMCMHubReconcile clear now r request)) request)
                 = Some e)"
      using p q by (auto simp: stored_Status_def stamp_def)
  qed
  show ?thesis using p q s by blast
qed

theorem Reconcile_hub_phase_witness:
  "map_option Phase (stored_Status
      (snd (Reconcile (routine_fails ''no channel'') routine_ok 7 example_client key_sub_orig)) key_sub_orig)
     = Some SubscriptionFailed
   \<and> map_option Reason (stored_Status
      (snd (Reconcile (routine_fails ''no channel'') routine_ok 7 example_client key_sub_orig)) key_sub_orig)
     = Some ''no channel''
   \<and> Reason (Status example_sub_orig) = ''stale''"
  using Reconcile_hub_phase [OF example_Get_orig example_is_hub(1),
      of "routine_fails ''no channel''" "Some ''no channel''" example_sub_orig routine_ok 7]
  by (simp add: routine_fails_def hub_outcome_Phase_def example_client_def key_of_def
      key_sub_orig_def example_sub_orig_def)

subsection \<open>Writes only on difference\<close>

text \<open>
  C2. Reconcile issues a status write exactly when the recomputed status differs from the
  snapshot taken before processing, and then one write only. Consequently a second
  Reconcile of a hub-mode subscription, run on the store the first one left, with a hub
  routine that returns the same outcome and leaves the status it is given alone, issues no
  write and leaves the client as it is.
\<close>

theorem Reconcile_write_only_on_difference:
  assumes found: "client_Get r request = Found instance0"
    and r1: "r1 = snd (Reconcile h c now r request)"
  shows "status_updates r1 =
           status_updates r @ (if Status (recompute h c instance0) = Status instance0 then []
                               else [stamp now (recompute h c instance0)])
       \<and> (is_hub instance0 \<and> update_failure r = None \<and> key_of (snd (h instance0)) = request
            \<and> (\<forall>instance1. client_Get r1 request = Found instance1 \<longrightarrow>
                  fst (h instance1) = fst (h instance0)
                  \<and> Status (snd (h instance1)) = Status instance1)
          \<longrightarrow> Reconcile h c now' r1 request = ((Result_zero, None), r1))"
proof -
  let ?i = "recompute h c instance0"
  have log: "status_updates r1 =
           status_updates r @ (if Status ?i = Status instance0 then [] else [stamp now ?i])"
    unfolding r1 by (auto simp: Reconcile_Found[OF found] client_StatusUpdate_def Let_def
        split: option.splits)
  have second: "Reconcile h c now' r1 request = ((Result_zero, None), r1)"
    if hub: "is_hub instance0" and upd: "update_failure r = None"
      and key: "key_of (snd (h instance0)) = request"
      and settled: "\<forall>instance1. client_Get r1 request = Found instance1 \<longrightarrow>
                  fst (h instance1) = fst (h instance0)
                  \<and> Status (snd (h instance1)) = Status instance1"
  proof -
    obtain err i0' where h0: "h instance0 = (err, i0')" by (cases "h instance0")
    have st0: "Status ?i = (Status i0')\<lparr>Phase := hub_outcome_Phase err,
        Reason := (case err of None \<Rightarrow> Reason (Status i0') | Some e \<Rightarrow> e)\<rparr>"
      using hub h0 by (simp add: recompute_def hub_branch_Status)
    have k: "key_of ?i = request"
      using hub key by (simp add: recompute_def key_of_hub_branch)
    define S where "S = (if Status instance0 = Status ?i then Status instance0
              else Status (stamp now ?i))"
    define instance1 where "instance1 = instance0\<lparr>Status := S\<rparr>"
    have g1: "client_Get r1 request = Found instance1"
      unfolding r1 instance1_def S_def by (rule stored_after_Reconcile[OF found upd k])
    have SP: "Phase S = hub_outcome_Phase err"
      by (simp add: S_def st0 stamp_def)
    have SR: "err = Some e \<Longrightarrow> Reason S = e" for e
      by (simp add: S_def st0 stamp_def)
    obtain i1' where h1: "h instance1 = (err, i1')" and s1: "Status i1' = S"
      using settled g1 h0 by (cases "h instance1") (auto simp: instance1_def)
    have "Status (recompute h c instance1) = (Status i1')\<lparr>Phase := hub_outcome_Phase err,
        Reason := (case err of None \<Rightarrow> Reason (Status i1') | Some e \<Rightarrow> e)\<rparr>"
      using hub h1 by (simp add: recompute_def hub_branch_Status instance1_def)
    also have "\<dots> = S"
      using SP SR by (cases err) (simp_all add: s1)
    finally have "Status (recompute h c instance1) = Status instance1"
      by (simp add: instance1_def)
    then show ?thesis
      by (simp add: Reconcile_Found[OF g1])
  qed
  show ?thesis using log second by blast
qed

theorem Reconcile_write_only_on_difference_witness:
  "length (status_updates (snd (Reconcile routine_ok routine_ok 7 example_client key_sub_orig))) = 1
   \<and> Reconcile routine_ok routine_ok 9
        (snd (Reconcile routine_ok routine_ok 7 example_client key_sub_orig)) key_sub_orig
       = ((Result_zero, None), snd (Reconcile routine_ok routine_ok 7 example_client key_sub_orig))"
proof -
  have k: "key_of (snd (routine_ok example_sub_orig)) = key_sub_orig"
    by (simp add: routine_ok_def example_sub_orig_def key_of_def key_sub_orig_def)
  have u: "update_failure example_client = None"
    by (simp add: example_client_def)
  have d: "Status (recompute routine_ok routine_ok example_sub_orig) \<noteq> Status example_sub_orig"
    by (simp add: recompute_def example_is_hub hub_branch_def routine_ok_def set_Phase_def)
       (simp add: example_sub_orig_def SubscriptionPropagated_def)
  have l: "status_updates example_client = []"
    by (simp add: example_client_def)
  show ?thesis
    using Reconcile_write_only_on_difference [OF example_Get_orig refl,
        of routine_ok routine_ok 7 9] k u d l example_is_hub(1)
    by (simp add: routine_ok_def)
qed

subsection \<open>Local mode\<close>

text \<open>
  C3. For a subscription whose placement selects no clusters, the status that Reconcile
  computes has no per-cluster entry under any key other than the reserved local key, and
  keeps the entry under the local key as the clear routine left it, however many entries
  there were. If the phase after the clear routine is neither Failed nor Subscribed, the
  phase, the message and the reason are empty. When the store accepts the write and the
  routine kept the name of the instance, the stored object holds that status.
\<close>

theorem Reconcile_local_clears:
  assumes "client_Get r request = Found instance0"
    and "\<not> is_hub instance0"
    and "clearSubscriptionDpls instance0 = (err, instance1)"
    and "st = Status (recompute h clearSubscriptionDpls instance0)"
  shows "(\<forall>k. k \<noteq> localkey \<longrightarrow> status_entry st k = None)
       \<and> status_entry st localkey = status_entry (Status instance1) localkey
       \<and> (cleared_Phase err instance1 \<noteq> SubscriptionFailed
            \<and> cleared_Phase err instance1 \<noteq> SubscriptionSubscribed
          \<longrightarrow> Phase st = '''' \<and> Message st = '''' \<and> Reason st = '''')
       \<and> (update_failure r = None \<and> key_of instance1 = request
          \<longrightarrow> stored_Status (snd (Reconcile h clearSubscriptionDpls now r request)) request
                = Some (if st = Status instance0 then st else st\<lparr>LastUpdateTime := now\<rparr>))"
proof -
  let ?i = "recompute h clearSubscriptionDpls instance0"
  have eq: "st = Status (local_branch clearSubscriptionDpls instance0)"
    using assms(2,4) by (simp add: recompute_def)
  have S: "st =
     (if cleared_Phase err instance1 \<noteq> SubscriptionFailed
         \<and> cleared_Phase err instance1 \<noteq> SubscriptionSubscribed
      then (Status instance1)\<lparr>Phase := '''', Message := '''', Reason := '''',
             Statuses := map_option delete_other_keys (Statuses (Status instance1))\<rparr>
      else (Status instance1)\<lparr>Phase := cleared_Phase err instance1,
             Reason := (case err of None \<Rightarrow> Reason (Status instance1) | Some e \<Rightarrow> e),
             Statuses := map_option delete_other_keys (Statuses (Status instance1))\<rparr>)"
    unfolding eq using assms(3) by (rule local_branch_Status)
  have a: "\<forall>k. k \<noteq> localkey \<longrightarrow> status_entry st k = None"
    by (auto simp: S status_entry_def delete_other_keys_def split: option.splits)
  have b: "status_entry st localkey = status_entry (Status instance1) localkey"
    by (auto simp: S status_entry_def delete_other_keys_def split: option.splits)
  have c: "cleared_Phase err instance1 \<noteq> SubscriptionFailed
            \<and> cleared_Phase err instance1 \<noteq> SubscriptionSubscribed
          \<longrightarrow> Phase st = '''' \<and> Message st = '''' \<and> Reason st = ''''"
    by (auto simp: S)
  have d: "update_failure r = None \<and> key_of instance1 = request
          \<longrightarrow> stored_Status (snd (Reconcile h clearSubscriptionDpls now r request)) request
                = Some (if st = Status instance0 then st else st\<lparr>LastUpdateTime := now\<rparr>)"
  proof (intro impI, elim conjE)
    assume u: "update_failure r = None" and kk: "key_of instance1 = request"
    have k: "key_of ?i = request"
      using assms(2,3) kk by (simp add: recompute_def key_of_local_branch)
    show "stored_Status (snd (Reconcile h clearSubscriptionDpls now r request)) request
                = Some (if st = Status instance0 then st else st\<lparr>LastUpdateTime := now\<rparr>)"
      using stored_after_Reconcile[OF assms(1) u k, of now] assms(4)
      by (auto simp: stored_Status_def stamp_def)
  qed
  show ?thesis using a b c d by blast
qed

theorem Reconcile_local_clears_witness:
  "status_entry (Status (recompute routine_ok routine_ok example_sub_target)) ''cluster1/cluster1'' = None
   \<and> status_entry (Status (recompute routine_ok routine_ok example_sub_target)) ''cluster2/cluster2'' = None
   \<and> status_entry (Status (recompute routine_ok routine_ok example_sub_target)) ''/'' = Some 1
   \<and> Phase (Status (recompute routine_ok routine_ok example_sub_target)) = ''''
   \<and> Phase (Status example_sub_target) = ''Propagated''
   \<and> map_option Phase (stored_Status
        (snd (Reconcile routine_ok routine_ok 7 example_client key_sub_target)) key_sub_target) = Some ''''
   \<and> map_option LastUpdateTime (stored_Status
        (snd (Reconcile routine_ok routine_ok 7 example_client key_sub_target)) key_sub_target) = Some 7"
proof -
  have c: "routine_ok example_sub_target = (None, example_sub_target)"
    by (simp add: routine_ok_def)
  have p: "cleared_Phase None example_sub_target \<noteq> SubscriptionFailed
            \<and> cleared_Phase None example_sub_target \<noteq> SubscriptionSubscribed"
    by (simp add: cleared_Phase_def example_sub_target_def SubscriptionPropagated_def
        SubscriptionFailed_def SubscriptionSubscribed_def)
  have u: "update_failure example_client = None \<and> key_of example_sub_target = key_sub_target"
    by (simp add: example_client_def example_sub_target_def key_of_def key_sub_target_def)
  have e: "status_entry (Status example_sub_target) localkey = Some 1"
    "Phase (Status example_sub_target) = ''Propagated''"
    by (simp_all add: status_entry_def example_sub_target_def localkey_eq SubscriptionPropagated_def)
  have n: "''cluster1/cluster1'' \<noteq> localkey" "''cluster2/cluster2'' \<noteq> localkey"
    by (simp_all add: localkey_eq)
  have ne: "Status (recompute routine_ok routine_ok example_sub_target) \<noteq> Status example_sub_target"
    by (simp add: example_target_recompute) (simp add: example_sub_target_def SubscriptionPropagated_def)
  show ?thesis
    using Reconcile_local_clears [where h = routine_ok and now = 7
        and st = "Status (recompute routine_ok routine_ok example_sub_target)",
        OF example_Get_target example_is_hub(2) c refl] p u e n ne
    by (simp add: localkey_eq)
qed

subsection \<open>A rejected write\<close>

text \<open>
  C9. When the status write is issued and the store rejects it, Reconcile returns no
  error: it returns the result that asks for redelivery after one second.
\<close>

theorem Reconcile_write_rejected:
  assumes "client_Get r request = Found instance0"
    and "Status (recompute h c instance0) \<noteq> Status instance0"
    and "fst (client_StatusUpdate r (stamp now (recompute h c instance0))) = Some e"
  shows "fst (Reconcile h c now r request) =
           (\<lparr>Requeue = False, RequeueAfter = 1000000000\<rparr>, None)"
  using assms by (simp add: Reconcile_Found Result_zero_def time_Second_def)

theorem Reconcile_write_rejected_witness:
  "fst (Reconcile routine_ok routine_ok 7 (example_client\<lparr>update_failure := Some ''conflict''\<rparr>)
          key_sub_orig) = (\<lparr>Requeue = False, RequeueAfter = 1000000000\<rparr>, None)"
proof -
  have g: "client_Get (example_client\<lparr>update_failure := Some ''conflict''\<rparr>) key_sub_orig
            = Found example_sub_orig"
    by (simp add: client_Get_def example_client_def key_sub_orig_def key_of_def example_sub_orig_def)
  have d: "Status (recompute routine_ok routine_ok example_sub_orig) \<noteq> Status example_sub_orig"
    by (simp add: recompute_def example_is_hub hub_branch_def routine_ok_def set_Phase_def)
       (simp add: example_sub_orig_def SubscriptionPropagated_def)
  have u: "fst (client_StatusUpdate (example_client\<lparr>update_failure := Some ''conflict''\<rparr>)
             (stamp 7 (recompute routine_ok routine_ok example_sub_orig))) = Some ''conflict''"
    by (simp add: client_StatusUpdate_def Let_def)
  show ?thesis
    using Reconcile_write_rejected [OF g d u] by simp
qed

subsection \<open>The last-update timestamp\<close>

text \<open>
  C10. If the recomputed status equals the snapshot, Reconcile leaves the client, and so
  the stored object and its last-update timestamp, as they were. Otherwise the only change
  is the one status write, and the instance written is the recomputed one with the
  timestamp set to the current time: the timestamp is set after the comparison and is not
  part of it.
\<close>

theorem Reconcile_timestamp_only_on_write:
  assumes "client_Get r request = Found instance0"
  shows "(Status (recompute h c instance0) = Status instance0 \<longrightarrow>
            snd (Reconcile h c now r request) = r)
       \<and> (Status (recompute h c instance0) \<noteq> Status instance0 \<longrightarrow>
            snd (Reconcile h c now r request) =
              snd (client_StatusUpdate r (stamp now (recompute h c instance0)))
            \<and> status_updates (snd (Reconcile h c now r request)) =
                status_updates r @ [stamp now (recompute h c instance0)]
            \<and> Status (stamp now (recompute h c instance0)) =
                (Status (recompute h c instance0))\<lparr>LastUpdateTime := now\<rparr>)"
  using assms
  by (auto simp: Reconcile_Found client_StatusUpdate_def Let_def stamp_def split: option.splits)

theorem Reconcile_timestamp_only_on_write_witness:
  "snd (Reconcile routine_ok routine_ok 9 example_client_settled key_sub_orig) = example_client_settled
   \<and> map_option LastUpdateTime (stored_Status example_client_settled key_sub_orig) = Some 0
   \<and> map (\<lambda>s. LastUpdateTime (Status s))
        (status_updates (snd (Reconcile routine_ok routine_ok 7 example_client key_sub_orig))) = [7]"
proof -
  have same: "Status (recompute routine_ok routine_ok (set_Phase SubscriptionPropagated example_sub_orig))
               = Status (set_Phase SubscriptionPropagated example_sub_orig)"
    by (simp add: recompute_def is_hub_def hub_branch_def routine_ok_def set_Phase_def
        example_sub_orig_def)
  have d: "Status (recompute routine_ok routine_ok example_sub_orig) \<noteq> Status example_sub_orig"
    by (simp add: recompute_def example_is_hub hub_branch_def routine_ok_def set_Phase_def)
       (simp add: example_sub_orig_def SubscriptionPropagated_def)
  have l: "status_updates example_client = []"
    by (simp add: example_client_def)
  have t: "map_option LastUpdateTime (stored_Status example_client_settled key_sub_orig) = Some 0"
    by (simp add: stored_Status_def example_Get_settled set_Phase_def example_sub_orig_def)
  have a: "snd (Reconcile routine_ok routine_ok 9 example_client_settled key_sub_orig)
             = example_client_settled"
    using Reconcile_timestamp_only_on_write [OF example_Get_settled, of routine_ok routine_ok 9] same
    by blast
  have b: "status_updates (snd (Reconcile routine_ok routine_ok 7 example_client key_sub_orig)) =
             status_updates example_client @ [stamp 7 (recompute routine_ok routine_ok example_sub_orig)]"
    using Reconcile_timestamp_only_on_write [OF example_Get_orig, of routine_ok routine_ok 7] d
    by blast
  show ?thesis
    using a b l t by (simp add: stamp_def)
qed

end
